theory Spec2Isabelle
  imports Main "HOL-Library.AList"
begin

section \<open>Values, errors and futures\<close>

text \<open>
  The model follows \<^verbatim>\<open>tools/service-connection.js\<close>. A function value that the code
  hands to the transport is a \<open>closure\<close>: the \<^verbatim>\<open>onConnected\<close> option, the result callback
  that \<^verbatim>\<open>apply\<close> pushes onto its arguments, and the \<^verbatim>\<open>{onReady, onError}\<close> object of
  \<^verbatim>\<open>subscribeAndWait\<close>, which captures the local variable \<^verbatim>\<open>subFuture\<close>.
\<close>

datatype closure = OnConnectedCb | ResultCb | SubscriptionCbs nat

datatype jsval =
    JUndefined
  | JNull
  | JBool bool
  | JNum int
  | JStr string
  | JArr "jsval list"
  | JFun closure

text \<open>
  An error object as the transport supplies it. The disconnect handler reads its
  \<^verbatim>\<open>errorType\<close> field; an object is truthy, so the only falsy payload is the absent one,
  which is \<open>None\<close> in a \<open>jserror option\<close>.
\<close>

record jserror =
  message :: string
  errorType :: "string option"

text \<open>
  What a \<^verbatim>\<open>throw\<close> raises: \<open>Error m\<close> is \<^verbatim>\<open>Error(m)\<close> created by this file (or by the
  future library), \<open>Supplied e\<close> is an error object received from the transport and
  raised again, \<open>TypeError\<close> is the engine's error on a property read of \<^verbatim>\<open>null\<close> or
  \<^verbatim>\<open>undefined\<close>.
\<close>

datatype exn = Error string | Supplied jserror | TypeError

datatype fstate = Pending | Returned jsval | Thrown exn

datatype tcall =
    Connect string "(string \<times> jsval) list"
  | NewFuture nat
  | OnDisconnect
  | Apply "jsval list"
  | Subscribe "jsval list"
  | Close

text \<open>
  The state: the three fields of \<^verbatim>\<open>self\<close> (\<open>connection\<close>, \<open>connected\<close>, \<open>currentFuture\<close>;
  \<open>None\<close> is \<^verbatim>\<open>null\<close> or \<^verbatim>\<open>undefined\<close>), the constructor's local \<^verbatim>\<open>connectFuture\<close> that
  its two closures capture, the store of all futures created so far (a future is its
  index in the store), and the trace of the calls made on the transport and of the
  futures created (\<open>NewFuture f\<close>), in program order.
\<close>

record facade =
  connection :: "nat option"
  connected :: "bool option"
  currentFuture :: "nat option"
  connectFuture :: "nat option"
  futures :: "fstate list"
  calls :: "tcall list"

subsection \<open>Futures\<close>

text \<open>
  Modelled from the spec: the WaitSlot. The module \<^verbatim>\<open>fibers/future\<close> that line 1 requires is
  not among the sources. Section 3 of the specification describes it: a slot has exactly
  one resolution event in its lifetime, a success value or a failure, and resolving it
  twice is a fatal error. \<open>new_Future\<close> is \<^verbatim>\<open>new Future\<close> (it adds an unresolved slot to the
  store and records the creation in the trace), \<open>future_return\<close> and
  \<open>future_throw\<close> are the methods \<^verbatim>\<open>return\<close> and \<^verbatim>\<open>throw\<close>, \<open>future_resolver\<close> is the
  node-style callback \<^verbatim>\<open>resolver()\<close> (failure when its first argument is present), and
  \<open>future_wait\<close> is what \<^verbatim>\<open>wait()\<close> gives the suspended caller: \<open>None\<close> while the slot is
  unresolved (the caller stays suspended), the value or the raised error afterwards.
\<close>

definition new_Future :: "facade \<Rightarrow> nat \<times> facade" where
  "new_Future s =
     (length (futures s),
      s\<lparr>futures := futures s @ [Pending],
        calls := calls s @ [NewFuture (length (futures s))]\<rparr>)"

definition isResolved :: "fstate list \<Rightarrow> nat \<Rightarrow> bool" where
  "isResolved fs f = (f < length fs \<and> fs ! f \<noteq> Pending)"

definition future_return :: "nat \<Rightarrow> jsval \<Rightarrow> facade \<Rightarrow> facade \<times> exn option" where
  "future_return f v s =
     (if isResolved (futures s) f then (s, Some (Error ''Future resolved more than once''))
      else (s\<lparr>futures := (futures s)[f := Returned v]\<rparr>, None))"

definition future_throw :: "nat \<Rightarrow> exn \<Rightarrow> facade \<Rightarrow> facade \<times> exn option" where
  "future_throw f x s =
     (if isResolved (futures s) f then (s, Some (Error ''Future resolved more than once''))
      else (s\<lparr>futures := (futures s)[f := Thrown x]\<rparr>, None))"

definition future_resolver :: "nat \<Rightarrow> jserror option \<Rightarrow> jsval \<Rightarrow> facade \<Rightarrow> facade \<times> exn option" where
  "future_resolver f err val s =
     (case err of
        Some e \<Rightarrow> future_throw f (Supplied e) s
      | None \<Rightarrow> future_return f val s)"

definition future_wait :: "facade \<Rightarrow> nat \<Rightarrow> (exn + jsval) option" where
  "future_wait s f =
     (if f < length (futures s) then
        (case futures s ! f of
           Pending \<Rightarrow> None
         | Returned v \<Rightarrow> Some (Inr v)
         | Thrown x \<Rightarrow> Some (Inl x))
      else None)"

section \<open>The constructor\<close>

text \<open>
  \<^verbatim>\<open>_.extend({}, options, {connectTimeoutMs: 15000, retry: false, onConnected: ...})\<close>:
  the caller's options with the three keys overridden.
\<close>

definition extend_options :: "(string \<times> jsval) list \<Rightarrow> (string \<times> jsval) list" where
  "extend_options options =
     AList.update ''onConnected'' (JFun OnConnectedCb)
       (AList.update ''retry'' (JBool False)
         (AList.update ''connectTimeoutMs'' (JNum 15000) options))"

text \<open>The fresh \<^verbatim>\<open>this\<close>: no field assigned yet, no future created, no transport call made.\<close>

definition blank :: facade where
  "blank = \<lparr>connection = None, connected = None, currentFuture = None,
            connectFuture = None, futures = [], calls = []\<rparr>"

text \<open>
  Line 49, \<^verbatim>\<open>self.connection = Package.ddp.DDP.connect(endpointUrl, options)\<close>; \<open>h\<close> is the
  handle the transport returns.
\<close>

definition ctor_connect :: "nat \<Rightarrow> string \<Rightarrow> (string \<times> jsval) list \<Rightarrow> facade \<Rightarrow> facade" where
  "ctor_connect h endpointUrl options s =
     s\<lparr>connection := Some h,
       calls := calls s @ [Connect endpointUrl (extend_options options)]\<rparr>"

text \<open>Line 53, \<^verbatim>\<open>var connectFuture = self.currentFuture = new Future\<close>.\<close>

definition ctor_future :: "facade \<Rightarrow> facade" where
  "ctor_future s =
     (case new_Future s of
        (f, s1) \<Rightarrow> s1\<lparr>currentFuture := Some f, connectFuture := Some f\<rparr>)"

text \<open>Line 54, \<^verbatim>\<open>self.connection._stream.on('disconnect', ...)\<close>.\<close>

definition ctor_listen :: "facade \<Rightarrow> facade" where
  "ctor_listen s = s\<lparr>calls := calls s @ [OnDisconnect]\<rparr>"

text \<open>
  The constructor up to the point where it suspends on line 76: the three statements in
  the order of the source.
\<close>

definition ServiceConnection :: "nat \<Rightarrow> string \<Rightarrow> (string \<times> jsval) list \<Rightarrow> facade" where
  "ServiceConnection h endpointUrl options =
     ctor_listen (ctor_future (ctor_connect h endpointUrl options blank))"

text \<open>Line 76, \<^verbatim>\<open>connectFuture.wait()\<close>, read in a later state \<open>s\<close>.\<close>

definition ServiceConnection_wait :: "facade \<Rightarrow> (exn + jsval) option" where
  "ServiceConnection_wait s =
     (case connectFuture s of
        None \<Rightarrow> Some (Inl TypeError)
      | Some f \<Rightarrow> future_wait s f)"

section \<open>The callbacks\<close>

text \<open>
  A callback returns the new state and what it raised, if anything. The assignments made
  before a \<^verbatim>\<open>throw\<close> stay in the state.
\<close>

definition onConnected :: "facade \<Rightarrow> facade \<times> exn option" where
  "onConnected s =
     (let s1 = s\<lparr>connected := Some True\<rparr> in
      if currentFuture s1 = None then
        (s1, Some (Error ''nobody waiting for connection?''))
      else if currentFuture s1 \<noteq> connectFuture s1 then
        (s1, Some (Error ''waiting for something that isn't connection?''))
      else
        (let s2 = s1\<lparr>currentFuture := None\<rparr> in
         case connectFuture s2 of
           None \<Rightarrow> (s2, Some TypeError)
         | Some c \<Rightarrow> future_return c JUndefined s2))"

definition isForcedReconnect :: "jserror option \<Rightarrow> bool" where
  "isForcedReconnect error =
     (case error of
        None \<Rightarrow> False
      | Some e \<Rightarrow> errorType e = Some ''DDP.ForcedReconnectError'')"

definition onDisconnect :: "jserror option \<Rightarrow> facade \<Rightarrow> facade \<times> exn option" where
  "onDisconnect error s =
     (let s1 = s\<lparr>connected := Some False\<rparr> in
      if isForcedReconnect error then
        (case connectFuture s1 of
           None \<Rightarrow> (s1, Some TypeError)
         | Some c \<Rightarrow>
             if isResolved (futures s1) c then (s1, Some (Error ''disconnect before connect?''))
             else (s1, None))
      else
        (case currentFuture s1 of
           Some fut \<Rightarrow>
             (let s2 = s1\<lparr>currentFuture := None\<rparr> in
              future_throw fut
                (case error of Some e \<Rightarrow> Supplied e | None \<Rightarrow> Error ''DDP disconnected'') s2)
         | None \<Rightarrow>
             (case error of
                Some e \<Rightarrow> (s1, Some (Supplied e))
              | None \<Rightarrow> (s1, None))))"

text \<open>The function that \<^verbatim>\<open>apply\<close> pushes onto the arguments (lines 95 to 104).\<close>

definition resultCallback :: "jserror option \<Rightarrow> jsval \<Rightarrow> facade \<Rightarrow> facade \<times> exn option" where
  "resultCallback err result s =
     (case currentFuture s of
        None \<Rightarrow> (s, Some (Error ''nobody listening for result?''))
      | Some fut \<Rightarrow> future_resolver fut err result (s\<lparr>currentFuture := None\<rparr>))"

definition onReady :: "facade \<Rightarrow> facade \<times> exn option" where
  "onReady s =
     (case currentFuture s of
        None \<Rightarrow> (s, Some (Error ''nobody listening for subscribe result?''))
      | Some fut \<Rightarrow> future_return fut JUndefined (s\<lparr>currentFuture := None\<rparr>))"

text \<open>
  \<^verbatim>\<open>onError\<close> of the subscription whose slot is \<open>subFuture\<close> (lines 131 to 140). The
  \<^verbatim>\<open>if\<close> has no \<^verbatim>\<open>else\<close> and does not return: \<^verbatim>\<open>throw e\<close> on line 139 runs on both paths,
  unless \<^verbatim>\<open>subFuture.throw\<close> has raised already.
\<close>

definition onError :: "nat \<Rightarrow> jserror \<Rightarrow> facade \<Rightarrow> facade \<times> exn option" where
  "onError subFuture e s =
     (if currentFuture s = Some subFuture then
        (case future_throw subFuture (Supplied e) (s\<lparr>currentFuture := None\<rparr>) of
           (s2, Some x) \<Rightarrow> (s2, Some x)
         | (s2, None) \<Rightarrow> (s2, Some (Supplied e)))
      else (s, Some (Supplied e)))"

section \<open>The operations\<close>

text \<open>
  \<^verbatim>\<open>apply\<close> up to the point where it suspends: lines 88 to 105, and the read of
  \<^verbatim>\<open>self.currentFuture\<close> on line 107. The result is the raised error, or the future on
  which the caller waits. With \<^verbatim>\<open>self.connection\<close> null, line 105 raises after line 92 has
  stored the new future.
\<close>

definition apply_issue :: "jsval list \<Rightarrow> facade \<Rightarrow> facade \<times> (exn + nat)" where
  "apply_issue arguments s =
     (if currentFuture s \<noteq> None then (s, Inl (Error ''Can't wait on two things at once!''))
      else
        (case new_Future s of
           (f, s0) \<Rightarrow>
             (let s1 = s0\<lparr>currentFuture := Some f\<rparr>;
                  args = arguments @ [JFun ResultCb]
              in case connection s1 of
                   None \<Rightarrow> (s1, Inl TypeError)
                 | Some c \<Rightarrow>
                     (let s2 = s1\<lparr>calls := calls s1 @ [Apply args]\<rparr>
                      in case currentFuture s2 of
                           None \<Rightarrow> (s2, Inl TypeError)
                         | Some w \<Rightarrow> (s2, Inr w)))))"

text \<open>
  \<^verbatim>\<open>call\<close>: \<^verbatim>\<open>args.shift()\<close> takes the name off the front (\<^verbatim>\<open>undefined\<close> when there is no
  argument), and \<^verbatim>\<open>apply\<close> receives the name and the array of the remaining arguments.
\<close>

definition call_issue :: "jsval list \<Rightarrow> facade \<Rightarrow> facade \<times> (exn + nat)" where
  "call_issue arguments s =
     (case arguments of
        [] \<Rightarrow> apply_issue [JUndefined, JArr []] s
      | name # args \<Rightarrow> apply_issue [name, JArr args] s)"

text \<open>
  \<^verbatim>\<open>subscribeAndWait\<close> up to the point where it suspends (lines 113 to 143); it waits on
  its local \<^verbatim>\<open>subFuture\<close>.
\<close>

definition subscribeAndWait_issue :: "jsval list \<Rightarrow> facade \<Rightarrow> facade \<times> (exn + nat)" where
  "subscribeAndWait_issue arguments s =
     (if currentFuture s \<noteq> None then (s, Inl (Error ''Can't wait on two things at once!''))
      else
        (case new_Future s of
           (subFuture, s0) \<Rightarrow>
             (let s1 = s0\<lparr>currentFuture := Some subFuture\<rparr>;
                  args = arguments @ [JFun (SubscriptionCbs subFuture)]
              in case connection s1 of
                   None \<Rightarrow> (s1, Inl TypeError)
                 | Some c \<Rightarrow> (s1\<lparr>calls := calls s1 @ [Subscribe args]\<rparr>, Inr subFuture))))"

definition close :: "facade \<Rightarrow> facade" where
  "close s =
     (case connection s of
        Some c \<Rightarrow> s\<lparr>connection := None, calls := calls s @ [Close]\<rparr>
      | None \<Rightarrow> s)"

section \<open>Sequences of operations and notifications\<close>

text \<open>
  What can happen to a facade, one at a time: a fibre enters an operation (which runs up
  to its suspension point), or the transport fires one of the callbacks. An exception
  goes to whoever made the call; the state keeps the assignments made before it.
\<close>

datatype event =
    EvOnConnected
  | EvDisconnect "jserror option"
  | EvApply "jsval list"
  | EvCall "jsval list"
  | EvResult "jserror option" jsval
  | EvSubscribe "jsval list"
  | EvOnReady
  | EvOnError nat jserror
  | EvClose

fun step :: "event \<Rightarrow> facade \<Rightarrow> facade" where
  "step EvOnConnected s = fst (onConnected s)"
| "step (EvDisconnect error) s = fst (onDisconnect error s)"
| "step (EvApply args) s = fst (apply_issue args s)"
| "step (EvCall args) s = fst (call_issue args s)"
| "step (EvResult err result) s = fst (resultCallback err result s)"
| "step (EvSubscribe args) s = fst (subscribeAndWait_issue args s)"
| "step EvOnReady s = fst (onReady s)"
| "step (EvOnError subFuture e) s = fst (onError subFuture e s)"
| "step EvClose s = close s"

fun run :: "event list \<Rightarrow> facade \<Rightarrow> facade" where
  "run [] s = s"
| "run (ev # evs) s = run evs (step ev s)"

text \<open>
  The blocking operations: the synchronous part, then the events \<open>evs\<close> that arrive while
  the caller is suspended, then what \<^verbatim>\<open>wait()\<close> gives. The transport is asynchronous: it
  runs a callback as an event of its own, after the operation that registered it has
  suspended, never from inside \<^verbatim>\<open>connection.apply\<close> or \<^verbatim>\<open>connection.subscribe\<close>.
  \<open>None\<close>: the caller is still suspended after \<open>evs\<close>. \<^verbatim>\<open>subscribeAndWait\<close> returns the
  handle \<open>sub\<close> that the transport gave it.
\<close>

definition apply_method :: "jsval list \<Rightarrow> event list \<Rightarrow> facade \<Rightarrow> (exn + jsval) option" where
  "apply_method arguments evs s =
     (case apply_issue arguments s of
        (s1, Inl x) \<Rightarrow> Some (Inl x)
      | (s1, Inr w) \<Rightarrow> future_wait (run evs s1) w)"

definition call :: "jsval list \<Rightarrow> event list \<Rightarrow> facade \<Rightarrow> (exn + jsval) option" where
  "call arguments evs s =
     (case arguments of
        [] \<Rightarrow> apply_method [JUndefined, JArr []] evs s
      | name # args \<Rightarrow> apply_method [name, JArr args] evs s)"

definition subscribeAndWait :: "jsval list \<Rightarrow> jsval \<Rightarrow> event list \<Rightarrow> facade \<Rightarrow> (exn + jsval) option" where
  "subscribeAndWait arguments sub evs s =
     (case subscribeAndWait_issue arguments s of
        (s1, Inl x) \<Rightarrow> Some (Inl x)
      | (s1, Inr w) \<Rightarrow>
          (case future_wait (run evs s1) w of
             None \<Rightarrow> None
           | Some (Inl x) \<Rightarrow> Some (Inl x)
           | Some (Inr v) \<Rightarrow> Some (Inr sub)))"

text \<open>The futures that are still unresolved: the outstanding wait slots.\<close>

definition outstanding :: "facade \<Rightarrow> nat list" where
  "outstanding s = filter (\<lambda>f. futures s ! f = Pending) [0..<length (futures s)]"

text \<open>
  The invariant of the bookkeeping: a future is unresolved exactly when it is the one in
  \<^verbatim>\<open>self.currentFuture\<close>, and both \<^verbatim>\<open>self.currentFuture\<close> and \<^verbatim>\<open>connectFuture\<close> refer to
  futures that exist.
\<close>

definition slot_inv :: "facade \<Rightarrow> bool" where
  "slot_inv s \<longleftrightarrow>
     (\<forall>f < length (futures s). (futures s ! f = Pending) = (currentFuture s = Some f)) \<and>
     (case currentFuture s of None \<Rightarrow> True | Some f \<Rightarrow> f < length (futures s)) \<and>
     (case connectFuture s of None \<Rightarrow> False | Some c \<Rightarrow> c < length (futures s))"


section \<open>The invariant holds in every reachable state\<close>

lemma slot_inv_close: "slot_inv s \<Longrightarrow> slot_inv (close s)"
  by (simp add: slot_inv_def close_def split: option.splits)

lemma slot_inv_init: "slot_inv (ServiceConnection h url opts)"
  by (simp add: slot_inv_def ServiceConnection_def ctor_listen_def ctor_future_def ctor_connect_def
      blank_def new_Future_def)

lemma slot_inv_onConnected: "slot_inv s \<Longrightarrow> slot_inv (fst (onConnected s))"
  by (auto simp: slot_inv_def onConnected_def future_return_def isResolved_def Let_def
      nth_list_update split: option.splits)

lemma slot_inv_onDisconnect: "slot_inv s \<Longrightarrow> slot_inv (fst (onDisconnect error s))"
  by (auto simp: slot_inv_def onDisconnect_def future_throw_def isResolved_def Let_def
      nth_list_update split: option.splits)


lemma slot_inv_apply_issue: "slot_inv s \<Longrightarrow> slot_inv (fst (apply_issue args s))"
  by (auto simp: slot_inv_def apply_issue_def new_Future_def Let_def nth_append
      split: option.splits)

lemma slot_inv_call_issue: "slot_inv s \<Longrightarrow> slot_inv (fst (call_issue args s))"
  by (simp add: call_issue_def slot_inv_apply_issue split: list.splits)

lemma slot_inv_subscribe_issue: "slot_inv s \<Longrightarrow> slot_inv (fst (subscribeAndWait_issue args s))"
  by (auto simp: slot_inv_def subscribeAndWait_issue_def new_Future_def Let_def nth_append
      split: option.splits)

lemma slot_inv_resultCallback: "slot_inv s \<Longrightarrow> slot_inv (fst (resultCallback err r s))"
  by (auto simp: slot_inv_def resultCallback_def future_resolver_def future_throw_def
      future_return_def isResolved_def nth_list_update split: option.splits)

lemma slot_inv_onReady: "slot_inv s \<Longrightarrow> slot_inv (fst (onReady s))"
  by (auto simp: slot_inv_def onReady_def future_return_def isResolved_def nth_list_update
      split: option.splits)

lemma slot_inv_onError: "slot_inv s \<Longrightarrow> slot_inv (fst (onError sub e s))"
  by (auto simp: slot_inv_def onError_def future_throw_def isResolved_def nth_list_update
      split: option.splits)

lemma slot_inv_step: "slot_inv s \<Longrightarrow> slot_inv (step ev s)"
  by (cases ev) (simp_all add: slot_inv_onConnected slot_inv_onDisconnect slot_inv_apply_issue
      slot_inv_call_issue slot_inv_subscribe_issue slot_inv_resultCallback slot_inv_onReady
      slot_inv_onError slot_inv_close)

lemma slot_inv_run: "slot_inv s \<Longrightarrow> slot_inv (run evs s)"
  by (induction evs arbitrary: s) (simp_all add: slot_inv_step)

lemma filter_upt_single: "f < n \<Longrightarrow> filter (\<lambda>i. i = f) [0..<n] = [f]"
  by (induction n) (auto simp: less_Suc_eq)

lemma filter_upt_none: "\<forall>i<n. \<not> P i \<Longrightarrow> filter P [0..<n] = []"
  by (induction n) auto

lemma outstanding_slot_inv:
  assumes "slot_inv s"
  shows "outstanding s = (case currentFuture s of None \<Rightarrow> [] | Some f \<Rightarrow> [f])"
proof (cases "currentFuture s")
  case None
  with assms have "\<forall>f<length (futures s). \<not> (futures s ! f = Pending)"
    by (simp add: slot_inv_def)
  then show ?thesis using None by (simp add: outstanding_def filter_upt_none)
next
  case (Some w)
  with assms have w: "w < length (futures s)"
    and eq: "\<forall>f<length (futures s). (futures s ! f = Pending) = (f = w)"
    by (auto simp: slot_inv_def)
  have "filter (\<lambda>f. futures s ! f = Pending) [0..<length (futures s)]
      = filter (\<lambda>f. f = w) [0..<length (futures s)]"
    using eq by (intro filter_cong) auto
  then show ?thesis using Some w by (simp add: outstanding_def filter_upt_single)
qed


lemmas model_defs =
  ServiceConnection_def ctor_listen_def ctor_future_def ctor_connect_def blank_def
  extend_options_def new_Future_def isResolved_def future_return_def future_throw_def
  future_resolver_def future_wait_def ServiceConnection_wait_def onConnected_def
  isForcedReconnect_def onDisconnect_def resultCallback_def onReady_def onError_def
  apply_issue_def call_issue_def subscribeAndWait_issue_def close_def apply_method_def
  call_def subscribeAndWait_def outstanding_def

lemma busy_apply_issue:
  "currentFuture s \<noteq> None \<Longrightarrow>
     apply_issue args s = (s, Inl (Error ''Can't wait on two things at once!''))"
  by (simp add: apply_issue_def)

lemma busy_call_issue:
  "currentFuture s \<noteq> None \<Longrightarrow>
     call_issue args s = (s, Inl (Error ''Can't wait on two things at once!''))"
  by (simp add: call_issue_def busy_apply_issue split: list.splits)

lemma busy_subscribe_issue:
  "currentFuture s \<noteq> None \<Longrightarrow>
     subscribeAndWait_issue args s = (s, Inl (Error ''Can't wait on two things at once!''))"
  by (simp add: subscribeAndWait_issue_def)

section \<open>What each callback does to a pending wait\<close>

lemma onConnected_nobody:
  "currentFuture s = None \<Longrightarrow>
     onConnected s = (s\<lparr>connected := Some True\<rparr>, Some (Error ''nobody waiting for connection?''))"
  by (simp add: onConnected_def Let_def)

lemma onConnected_other:
  "currentFuture s = Some w \<Longrightarrow> connectFuture s \<noteq> Some w \<Longrightarrow>
     onConnected s =
       (s\<lparr>connected := Some True\<rparr>, Some (Error ''waiting for something that isn't connection?''))"
  by (simp add: onConnected_def Let_def)

lemma onConnected_own:
  "currentFuture s = Some c \<Longrightarrow> connectFuture s = Some c \<Longrightarrow> \<not> isResolved (futures s) c \<Longrightarrow>
     onConnected s =
       (s\<lparr>connected := Some True, currentFuture := None,
          futures := (futures s)[c := Returned JUndefined]\<rparr>, None)"
  by (simp add: onConnected_def Let_def future_return_def)


lemma slot_inv_pending:
  "slot_inv s \<Longrightarrow> currentFuture s = Some w \<Longrightarrow> w < length (futures s) \<and> futures s ! w = Pending"
  by (simp add: slot_inv_def)

lemma slot_inv_not_resolved:
  "slot_inv s \<Longrightarrow> currentFuture s = Some w \<Longrightarrow> \<not> isResolved (futures s) w"
  by (simp add: slot_inv_def isResolved_def)

lemma onDisconnect_pending:
  "currentFuture s = Some w \<Longrightarrow> \<not> isResolved (futures s) w \<Longrightarrow> \<not> isForcedReconnect error \<Longrightarrow>
     onDisconnect error s =
       (s\<lparr>connected := Some False, currentFuture := None,
          futures := (futures s)[w := Thrown (case error of Some e \<Rightarrow> Supplied e
                                               | None \<Rightarrow> Error ''DDP disconnected'')]\<rparr>, None)"
  by (simp add: onDisconnect_def Let_def future_throw_def)

lemma resultCallback_pending:
  "currentFuture s = Some w \<Longrightarrow> \<not> isResolved (futures s) w \<Longrightarrow>
     resultCallback err result s =
       (s\<lparr>currentFuture := None,
          futures := (futures s)[w := (case err of Some e \<Rightarrow> Thrown (Supplied e)
                                       | None \<Rightarrow> Returned result)]\<rparr>, None)"
  by (simp add: resultCallback_def future_resolver_def future_throw_def future_return_def
      split: option.splits)

lemma onReady_pending:
  "currentFuture s = Some w \<Longrightarrow> \<not> isResolved (futures s) w \<Longrightarrow>
     onReady s = (s\<lparr>currentFuture := None, futures := (futures s)[w := Returned JUndefined]\<rparr>, None)"
  by (simp add: onReady_def future_return_def)

lemma onError_other:
  "currentFuture s \<noteq> Some subFuture \<Longrightarrow> onError subFuture e s = (s, Some (Supplied e))"
  by (simp add: onError_def)




lemma resolved_step:
  assumes "slot_inv s" and "f < length (futures s)" and "futures s ! f \<noteq> Pending"
  shows "f < length (futures (step ev s)) \<and> futures (step ev s) ! f = futures s ! f"
proof -
  have cur: "currentFuture s \<noteq> Some f"
    using assms by (auto simp: slot_inv_def)
  show ?thesis
  proof (cases ev)
    case EvOnConnected
    then show ?thesis using assms cur
      by (auto simp: onConnected_def Let_def future_return_def nth_list_update split: option.splits)
  next
    case (EvDisconnect error)
    then show ?thesis using assms cur
      by (auto simp: onDisconnect_def Let_def future_throw_def nth_list_update split: option.splits)
  next
    case (EvApply args)
    then show ?thesis using assms cur
      by (auto simp: apply_issue_def new_Future_def Let_def nth_append split: option.splits)
  next
    case (EvCall args)
    then show ?thesis using assms cur
      by (auto simp: call_issue_def apply_issue_def new_Future_def Let_def nth_append
          split: option.splits list.splits)
  next
    case (EvResult err result)
    then show ?thesis using assms cur
      by (auto simp: resultCallback_def future_resolver_def future_throw_def future_return_def
          nth_list_update split: option.splits)
  next
    case (EvSubscribe args)
    then show ?thesis using assms cur
      by (auto simp: subscribeAndWait_issue_def new_Future_def Let_def nth_append
          split: option.splits)
  next
    case EvOnReady
    then show ?thesis using assms cur
      by (auto simp: onReady_def future_return_def nth_list_update split: option.splits)
  next
    case (EvOnError subFuture e)
    then show ?thesis using assms cur
      by (auto simp: onError_def future_throw_def nth_list_update split: option.splits)
  next
    case EvClose
    then show ?thesis using assms
      by (auto simp: close_def split: option.splits)
  qed
qed

lemma resolved_run:
  "slot_inv s \<Longrightarrow> f < length (futures s) \<Longrightarrow> futures s ! f \<noteq> Pending \<Longrightarrow>
     f < length (futures (run evs s)) \<and> futures (run evs s) ! f = futures s ! f"
proof (induction evs arbitrary: s)
  case Nil
  then show ?case by simp
next
  case (Cons ev evs)
  have 1: "f < length (futures (step ev s)) \<and> futures (step ev s) ! f = futures s ! f"
    using Cons.prems by (rule resolved_step)
  have 2: "slot_inv (step ev s)"
    using Cons.prems(1) by (rule slot_inv_step)
  have "f < length (futures (run evs (step ev s))) \<and>
        futures (run evs (step ev s)) ! f = futures (step ev s) ! f"
    using 1 2 Cons.prems(3) by (intro Cons.IH) simp_all
  then show ?case using 1 by simp
qed

lemma future_wait_resolved_run:
  "slot_inv s \<Longrightarrow> future_wait s f = Some r \<Longrightarrow> future_wait (run evs s) f = Some r"
proof -
  assume inv: "slot_inv s" and w: "future_wait s f = Some r"
  from w have f: "f < length (futures s)" and p: "futures s ! f \<noteq> Pending"
    by (auto simp: future_wait_def split: if_splits fstate.splits)
  from resolved_run [OF inv f p, of evs] w f show ?thesis
    by (simp add: future_wait_def)
qed










lemma resultCallback_nobody_iff:
  "(snd (resultCallback err result s) = Some (Error ''nobody listening for result?'')) =
     (currentFuture s = None)"
  by (cases "currentFuture s"; cases err)
    (simp_all add: resultCallback_def future_resolver_def future_throw_def future_return_def)

section \<open>One outstanding wait\<close>

text \<open>
  Claim C1. After the constructor has suspended, and after any sequence of operations and
  notifications, at most one future is unresolved, and it is the one in
  \<^verbatim>\<open>self.currentFuture\<close>. In any state with a pending wait, \<^verbatim>\<open>apply\<close>, \<^verbatim>\<open>call\<close> and
  \<^verbatim>\<open>subscribeAndWait\<close> raise \<^verbatim>\<open>Error("Can't wait on two things at once!")\<close> and leave the
  whole state as it was: no transport call is logged, no future is created, and the pending
  wait is untouched.
\<close>

theorem single_wait_slot:
  "length (outstanding (run evs (ServiceConnection h url opts))) \<le> 1 \<and>
   outstanding (run evs (ServiceConnection h url opts)) =
     (case currentFuture (run evs (ServiceConnection h url opts)) of
        None \<Rightarrow> [] | Some f \<Rightarrow> [f]) \<and>
   (currentFuture s \<noteq> None \<longrightarrow>
      apply_issue args s = (s, Inl (Error ''Can't wait on two things at once!'')) \<and>
      call_issue args s = (s, Inl (Error ''Can't wait on two things at once!'')) \<and>
      subscribeAndWait_issue args s = (s, Inl (Error ''Can't wait on two things at once!'')) \<and>
      apply_method args later s = Some (Inl (Error ''Can't wait on two things at once!'')) \<and>
      call args later s = Some (Inl (Error ''Can't wait on two things at once!'')) \<and>
      subscribeAndWait args sub later s =
        Some (Inl (Error ''Can't wait on two things at once!'')))"
proof -
  let ?s = "run evs (ServiceConnection h url opts)"
  have inv: "slot_inv ?s" by (rule slot_inv_run) (rule slot_inv_init)
  have out: "outstanding ?s = (case currentFuture ?s of None \<Rightarrow> [] | Some f \<Rightarrow> [f])"
    by (rule outstanding_slot_inv [OF inv])
  have le: "length (outstanding ?s) \<le> 1"
    unfolding out by (simp split: option.splits)
  have busy: "currentFuture s \<noteq> None \<longrightarrow>
      apply_issue args s = (s, Inl (Error ''Can't wait on two things at once!'')) \<and>
      call_issue args s = (s, Inl (Error ''Can't wait on two things at once!'')) \<and>
      subscribeAndWait_issue args s = (s, Inl (Error ''Can't wait on two things at once!'')) \<and>
      apply_method args later s = Some (Inl (Error ''Can't wait on two things at once!'')) \<and>
      call args later s = Some (Inl (Error ''Can't wait on two things at once!'')) \<and>
      subscribeAndWait args sub later s =
        Some (Inl (Error ''Can't wait on two things at once!''))"
    by (simp add: busy_apply_issue busy_call_issue busy_subscribe_issue apply_method_def
        call_def subscribeAndWait_def split: list.splits)
  from le out busy show ?thesis by blast
qed

theorem single_wait_slot_witness:
  "currentFuture (run [EvOnConnected, EvApply [JStr ''ping'', JArr []]]
       (ServiceConnection 1 ''ddp://host'' [])) \<noteq> None \<and>
   outstanding (run [EvOnConnected, EvApply [JStr ''ping'', JArr []]]
       (ServiceConnection 1 ''ddp://host'' [])) = [1] \<and>
   subscribeAndWait_issue [JStr ''feed'']
       (run [EvOnConnected, EvApply [JStr ''ping'', JArr []]]
         (ServiceConnection 1 ''ddp://host'' [])) =
     (run [EvOnConnected, EvApply [JStr ''ping'', JArr []]]
         (ServiceConnection 1 ''ddp://host'' []),
      Inl (Error ''Can't wait on two things at once!''))"
proof -
  have pending: "currentFuture (run [EvOnConnected, EvApply [JStr ''ping'', JArr []]]
       (ServiceConnection 1 ''ddp://host'' [])) = Some 1"
    by (simp add: model_defs)
  show ?thesis
    using pending single_wait_slot [where evs = "[EvOnConnected, EvApply [JStr ''ping'', JArr []]]"
        and h = 1 and url = "''ddp://host''" and opts = "[]" and args = "[JStr ''feed'']"
        and later = "[]" and sub = JNull
        and s = "run [EvOnConnected, EvApply [JStr ''ping'', JArr []]]
                   (ServiceConnection 1 ''ddp://host'' [])"]
    by (simp del: run.simps)
qed

section \<open>The disconnect handler\<close>

text \<open>
  Claim C5, as amended. A disconnect event whose error has \<^verbatim>\<open>errorType\<close>
  \<^verbatim>\<open>"DDP.ForcedReconnectError"\<close>, arriving while the connect future is unresolved, sets
  \<^verbatim>\<open>connected\<close> to false and does nothing else: \<^verbatim>\<open>currentFuture\<close> and every future stay as
  they were and nothing is raised.
\<close>

theorem forced_reconnect_before_connect:
  "connectFuture s = Some c \<Longrightarrow> \<not> isResolved (futures s) c \<Longrightarrow> isForcedReconnect error \<Longrightarrow>
     onDisconnect error s = (s\<lparr>connected := Some False\<rparr>, None)"
  by (simp add: onDisconnect_def)

theorem forced_reconnect_before_connect_witness:
  "connectFuture (ServiceConnection 1 ''ddp://host'' []) = Some 0 \<and>
   \<not> isResolved (futures (ServiceConnection 1 ''ddp://host'' [])) 0 \<and>
   isForcedReconnect
     (Some \<lparr>message = ''forced reconnect'', errorType = Some ''DDP.ForcedReconnectError''\<rparr>) \<and>
   onDisconnect
       (Some \<lparr>message = ''forced reconnect'', errorType = Some ''DDP.ForcedReconnectError''\<rparr>)
       (ServiceConnection 1 ''ddp://host'' []) =
     (\<lparr>connection = Some 1, connected = Some False, currentFuture = Some 0,
       connectFuture = Some 0, futures = [Pending],
       calls = [Connect ''ddp://host'' (extend_options []), NewFuture 0, OnDisconnect]\<rparr>,
      None)"
proof -
  have st: "ServiceConnection 1 ''ddp://host'' [] =
     \<lparr>connection = Some 1, connected = None, currentFuture = Some 0,
      connectFuture = Some 0, futures = [Pending],
      calls = [Connect ''ddp://host'' (extend_options []), NewFuture 0, OnDisconnect]\<rparr>"
    by (simp add: model_defs)
  have c: "connectFuture (ServiceConnection 1 ''ddp://host'' []) = Some 0"
    using st by simp
  have r: "\<not> isResolved (futures (ServiceConnection 1 ''ddp://host'' [])) 0"
    using st by (simp add: isResolved_def)
  have e: "isForcedReconnect
     (Some \<lparr>message = ''forced reconnect'', errorType = Some ''DDP.ForcedReconnectError''\<rparr>)"
    by (simp add: isForcedReconnect_def)
  show ?thesis
    using st c r e forced_reconnect_before_connect [OF c r e]
    by simp
qed

text \<open>
  Claim C5, as stated, fails: the assignment \<^verbatim>\<open>self.connected = false\<close> on line 55 comes
  before the test of the error on line 56. On the facade whose constructor is still
  waiting, \<^verbatim>\<open>connected\<close> has never been assigned; a forced-reconnect disconnect assigns
  false to it.
\<close>

theorem forced_reconnect_marks_disconnected:
  "ServiceConnection_wait (ServiceConnection 1 ''ddp://host'' []) = None \<and>
   isForcedReconnect
     (Some \<lparr>message = ''forced reconnect'', errorType = Some ''DDP.ForcedReconnectError''\<rparr>) \<and>
   connected (ServiceConnection 1 ''ddp://host'' []) = None \<and>
   connected (fst (onDisconnect
       (Some \<lparr>message = ''forced reconnect'', errorType = Some ''DDP.ForcedReconnectError''\<rparr>)
       (ServiceConnection 1 ''ddp://host'' []))) = Some False"
  by (simp add: model_defs)

text \<open>
  Claim C6. A forced-reconnect disconnect that arrives when the connect future is resolved
  raises \<^verbatim>\<open>Error("disconnect before connect?")\<close>. Apart from \<^verbatim>\<open>connected\<close>, the state is
  unchanged: the event is not delivered to a pending wait.
\<close>

theorem forced_reconnect_after_connect:
  "connectFuture s = Some c \<Longrightarrow> isResolved (futures s) c \<Longrightarrow> isForcedReconnect error \<Longrightarrow>
     onDisconnect error s =
       (s\<lparr>connected := Some False\<rparr>, Some (Error ''disconnect before connect?''))"
  by (simp add: onDisconnect_def)

theorem forced_reconnect_after_connect_witness:
  "connectFuture (run [EvOnConnected] (ServiceConnection 1 ''ddp://host'' [])) = Some 0 \<and>
   isResolved (futures (run [EvOnConnected] (ServiceConnection 1 ''ddp://host'' []))) 0 \<and>
   isForcedReconnect
     (Some \<lparr>message = ''forced reconnect'', errorType = Some ''DDP.ForcedReconnectError''\<rparr>) \<and>
   onDisconnect
       (Some \<lparr>message = ''forced reconnect'', errorType = Some ''DDP.ForcedReconnectError''\<rparr>)
       (run [EvOnConnected] (ServiceConnection 1 ''ddp://host'' [])) =
     (\<lparr>connection = Some 1, connected = Some False, currentFuture = None,
       connectFuture = Some 0, futures = [Returned JUndefined],
       calls = [Connect ''ddp://host'' (extend_options []), NewFuture 0, OnDisconnect]\<rparr>,
      Some (Error ''disconnect before connect?''))"
proof -
  have st: "run [EvOnConnected] (ServiceConnection 1 ''ddp://host'' []) =
     \<lparr>connection = Some 1, connected = Some True, currentFuture = None,
      connectFuture = Some 0, futures = [Returned JUndefined],
      calls = [Connect ''ddp://host'' (extend_options []), NewFuture 0, OnDisconnect]\<rparr>"
    by (simp add: model_defs)
  have c: "connectFuture (run [EvOnConnected] (ServiceConnection 1 ''ddp://host'' [])) = Some 0"
    using st by (simp del: run.simps)
  have r: "isResolved (futures (run [EvOnConnected] (ServiceConnection 1 ''ddp://host'' []))) 0"
    using st by (simp add: isResolved_def del: run.simps)
  have e: "isForcedReconnect
     (Some \<lparr>message = ''forced reconnect'', errorType = Some ''DDP.ForcedReconnectError''\<rparr>)"
    by (simp add: isForcedReconnect_def)
  show ?thesis
    using st c r e forced_reconnect_after_connect [OF c r e]
    by (simp del: run.simps)
qed

text \<open>
  Claim C7. With no wait pending, a disconnect that is not a forced reconnect sets
  \<^verbatim>\<open>connected\<close> to false and then raises the supplied error again, or, when no error was
  supplied, does nothing more.
\<close>

theorem disconnect_nobody_waiting:
  "currentFuture s = None \<Longrightarrow> \<not> isForcedReconnect error \<Longrightarrow>
     onDisconnect error s =
       (s\<lparr>connected := Some False\<rparr>,
        case error of Some e \<Rightarrow> Some (Supplied e) | None \<Rightarrow> None)"
  by (simp add: onDisconnect_def split: option.splits)

theorem disconnect_nobody_waiting_witness:
  "currentFuture (run [EvOnConnected] (ServiceConnection 1 ''ddp://host'' [])) = None \<and>
   \<not> isForcedReconnect (Some \<lparr>message = ''socket hang up'', errorType = None\<rparr>) \<and>
   \<not> isForcedReconnect None \<and>
   onDisconnect (Some \<lparr>message = ''socket hang up'', errorType = None\<rparr>)
       (run [EvOnConnected] (ServiceConnection 1 ''ddp://host'' [])) =
     (\<lparr>connection = Some 1, connected = Some False, currentFuture = None,
       connectFuture = Some 0, futures = [Returned JUndefined],
       calls = [Connect ''ddp://host'' (extend_options []), NewFuture 0, OnDisconnect]\<rparr>,
      Some (Supplied \<lparr>message = ''socket hang up'', errorType = None\<rparr>)) \<and>
   onDisconnect None (run [EvOnConnected] (ServiceConnection 1 ''ddp://host'' [])) =
     (\<lparr>connection = Some 1, connected = Some False, currentFuture = None,
       connectFuture = Some 0, futures = [Returned JUndefined],
       calls = [Connect ''ddp://host'' (extend_options []), NewFuture 0, OnDisconnect]\<rparr>,
      None)"
proof -
  have st: "run [EvOnConnected] (ServiceConnection 1 ''ddp://host'' []) =
     \<lparr>connection = Some 1, connected = Some True, currentFuture = None,
      connectFuture = Some 0, futures = [Returned JUndefined],
      calls = [Connect ''ddp://host'' (extend_options []), NewFuture 0, OnDisconnect]\<rparr>"
    by (simp add: model_defs)
  have idle: "currentFuture (run [EvOnConnected] (ServiceConnection 1 ''ddp://host'' [])) = None"
    using st by (simp del: run.simps)
  have e1: "\<not> isForcedReconnect (Some \<lparr>message = ''socket hang up'', errorType = None\<rparr>)"
    by (simp add: isForcedReconnect_def)
  have e2: "\<not> isForcedReconnect None"
    by (simp add: isForcedReconnect_def)
  show ?thesis
    using st e1 e2 disconnect_nobody_waiting [OF idle e1] disconnect_nobody_waiting [OF idle e2]
    by (simp del: run.simps)
qed

section \<open>Close\<close>

text \<open>
  Claim C9. The first \<^verbatim>\<open>close\<close> on a facade that owns a handle logs one transport
  \<^verbatim>\<open>close\<close> and sets \<^verbatim>\<open>connection\<close> to null; on a facade without a handle \<^verbatim>\<open>close\<close> is the
  identity, so a second \<^verbatim>\<open>close\<close> changes nothing. No \<^verbatim>\<open>close\<close> touches \<^verbatim>\<open>currentFuture\<close>
  or any future: a suspended caller stays suspended.
\<close>

theorem close_idempotent:
  "close (close s) = close s \<and>
   (connection s \<noteq> None \<longrightarrow> close s = s\<lparr>connection := None, calls := calls s @ [Close]\<rparr>) \<and>
   (connection s = None \<longrightarrow> close s = s) \<and>
   connection (close s) = None \<and>
   currentFuture (close s) = currentFuture s \<and>
   futures (close s) = futures s \<and>
   outstanding (close s) = outstanding s \<and>
   future_wait (close s) f = future_wait s f"
  by (cases "connection s") (simp_all add: close_def outstanding_def future_wait_def)

theorem close_idempotent_witness:
  "connection (run [EvOnConnected, EvApply [JStr ''ping'', JArr []]]
       (ServiceConnection 1 ''ddp://host'' [])) \<noteq> None \<and>
   calls (close (run [EvOnConnected, EvApply [JStr ''ping'', JArr []]]
       (ServiceConnection 1 ''ddp://host'' []))) =
     [Connect ''ddp://host'' (extend_options []), NewFuture 0, OnDisconnect,
      NewFuture 1, Apply [JStr ''ping'', JArr [], JFun ResultCb], Close] \<and>
   currentFuture (close (run [EvOnConnected, EvApply [JStr ''ping'', JArr []]]
       (ServiceConnection 1 ''ddp://host'' []))) = Some 1 \<and>
   close (close (run [EvOnConnected, EvApply [JStr ''ping'', JArr []]]
       (ServiceConnection 1 ''ddp://host'' []))) =
     close (run [EvOnConnected, EvApply [JStr ''ping'', JArr []]]
       (ServiceConnection 1 ''ddp://host'' []))"
proof -
  have st: "run [EvOnConnected, EvApply [JStr ''ping'', JArr []]]
       (ServiceConnection 1 ''ddp://host'' []) =
     \<lparr>connection = Some 1, connected = Some True, currentFuture = Some 1,
      connectFuture = Some 0, futures = [Returned JUndefined, Pending],
      calls = [Connect ''ddp://host'' (extend_options []), NewFuture 0, OnDisconnect,
               NewFuture 1, Apply [JStr ''ping'', JArr [], JFun ResultCb]]\<rparr>"
    by (simp add: model_defs)
  show ?thesis
    using st close_idempotent [where s = "run [EvOnConnected, EvApply [JStr ''ping'', JArr []]]
       (ServiceConnection 1 ''ddp://host'' [])" and f = 1]
    by (simp add: close_def del: run.simps)
qed

section \<open>Connection establishment\<close>

text \<open>
  Claim C8, as amended. The trace of the constructor is: the transport connect call, then
  the creation of the connect future, then the registration of the disconnect handler.
  What precedes the creation of the future in the trace is the connect call, and nothing
  precedes the connect call. When the constructor suspends, the connect future is the
  pending wait and is unresolved. The success callback sets \<^verbatim>\<open>connected\<close> to true and
  raises a fatal error when no wait is pending or when the pending wait is not the connect
  future; otherwise it clears \<^verbatim>\<open>self.currentFuture\<close> and resolves the connect future with
  success.
\<close>

theorem connect_issued_then_wait_slot:
  "calls (ServiceConnection h url opts) =
     [Connect url (extend_options opts), NewFuture 0, OnDisconnect] \<and>
   takeWhile ((\<noteq>) (NewFuture 0)) (calls (ServiceConnection h url opts)) =
     [Connect url (extend_options opts)] \<and>
   takeWhile ((\<noteq>) (Connect url (extend_options opts))) (calls (ServiceConnection h url opts)) =
     [] \<and>
   ServiceConnection h url opts =
     \<lparr>connection = Some h, connected = None, currentFuture = Some 0, connectFuture = Some 0,
      futures = [Pending], calls = [Connect url (extend_options opts), NewFuture 0, OnDisconnect]\<rparr> \<and>
   ServiceConnection_wait (ServiceConnection h url opts) = None \<and>
   (currentFuture s = None \<longrightarrow>
      onConnected s = (s\<lparr>connected := Some True\<rparr>, Some (Error ''nobody waiting for connection?''))) \<and>
   (currentFuture s \<noteq> None \<and> currentFuture s \<noteq> connectFuture s \<longrightarrow>
      onConnected s =
        (s\<lparr>connected := Some True\<rparr>, Some (Error ''waiting for something that isn't connection?''))) \<and>
   (currentFuture s = Some c \<and> connectFuture s = Some c \<and> \<not> isResolved (futures s) c \<longrightarrow>
      onConnected s =
        (s\<lparr>connected := Some True, currentFuture := None,
           futures := (futures s)[c := Returned JUndefined]\<rparr>, None))"
proof -
  have "currentFuture s \<noteq> None \<and> currentFuture s \<noteq> connectFuture s \<longrightarrow>
      onConnected s =
        (s\<lparr>connected := Some True\<rparr>, Some (Error ''waiting for something that isn't connection?''))"
    by (cases "currentFuture s") (auto simp: onConnected_other)
  moreover have "ServiceConnection h url opts =
     \<lparr>connection = Some h, connected = None, currentFuture = Some 0, connectFuture = Some 0,
      futures = [Pending], calls = [Connect url (extend_options opts), NewFuture 0, OnDisconnect]\<rparr>"
    by (simp add: ServiceConnection_def ctor_listen_def ctor_future_def ctor_connect_def
        blank_def new_Future_def)
  moreover have "ServiceConnection_wait (ServiceConnection h url opts) = None"
    by (simp add: ServiceConnection_def ctor_listen_def ctor_future_def ctor_connect_def
        blank_def new_Future_def ServiceConnection_wait_def future_wait_def)
  moreover have "calls (ServiceConnection h url opts) =
     [Connect url (extend_options opts), NewFuture 0, OnDisconnect]"
    by (simp add: ServiceConnection_def ctor_listen_def ctor_future_def ctor_connect_def
        blank_def new_Future_def)
  ultimately show ?thesis
    by (simp add: onConnected_nobody onConnected_own)
qed

theorem connect_issued_then_wait_slot_witness:
  "currentFuture (run [EvOnConnected, EvApply [JStr ''ping'', JArr []]]
       (ServiceConnection 1 ''ddp://host'' [])) \<noteq> None \<and>
   currentFuture (run [EvOnConnected, EvApply [JStr ''ping'', JArr []]]
       (ServiceConnection 1 ''ddp://host'' [])) \<noteq>
     connectFuture (run [EvOnConnected, EvApply [JStr ''ping'', JArr []]]
       (ServiceConnection 1 ''ddp://host'' [])) \<and>
   snd (onConnected (run [EvOnConnected, EvApply [JStr ''ping'', JArr []]]
       (ServiceConnection 1 ''ddp://host'' []))) =
     Some (Error ''waiting for something that isn't connection?'') \<and>
   currentFuture (ServiceConnection 1 ''ddp://host'' []) = Some 0 \<and>
   connectFuture (ServiceConnection 1 ''ddp://host'' []) = Some 0 \<and>
   \<not> isResolved (futures (ServiceConnection 1 ''ddp://host'' [])) 0 \<and>
   onConnected (ServiceConnection 1 ''ddp://host'' []) =
     (\<lparr>connection = Some 1, connected = Some True, currentFuture = None,
       connectFuture = Some 0, futures = [Returned JUndefined],
       calls = [Connect ''ddp://host'' (extend_options []), NewFuture 0, OnDisconnect]\<rparr>, None)"
proof -
  have st: "run [EvOnConnected, EvApply [JStr ''ping'', JArr []]]
       (ServiceConnection 1 ''ddp://host'' []) =
     \<lparr>connection = Some 1, connected = Some True, currentFuture = Some 1,
      connectFuture = Some 0, futures = [Returned JUndefined, Pending],
      calls = [Connect ''ddp://host'' (extend_options []), NewFuture 0, OnDisconnect,
               NewFuture 1, Apply [JStr ''ping'', JArr [], JFun ResultCb]]\<rparr>"
    by (simp add: model_defs)
  have r: "\<not> isResolved (futures (ServiceConnection 1 ''ddp://host'' [])) 0"
    by (simp add: model_defs)
  show ?thesis
    using st r
      connect_issued_then_wait_slot [where h = 1 and url = "''ddp://host''" and opts = "[]"
        and s = "run [EvOnConnected, EvApply [JStr ''ping'', JArr []]]
                   (ServiceConnection 1 ''ddp://host'' [])" and c = 0]
      connect_issued_then_wait_slot [where h = 1 and url = "''ddp://host''" and opts = "[]"
        and s = "ServiceConnection 1 ''ddp://host'' []" and c = 0]
    by (simp del: run.simps)
qed

text \<open>
  Claim C8, as stated, fails: line 49 calls \<^verbatim>\<open>DDP.connect\<close> and line 53 creates the
  future. In the trace of the constructor the connect call is the first entry and the
  creation of the future the second: no future is created before the connect call, and
  the connect call has been issued when the future is created.
\<close>

theorem connect_issued_without_wait_slot:
  "calls (ServiceConnection 1 ''ddp://host'' []) =
     [Connect ''ddp://host''
        [(''connectTimeoutMs'', JNum 15000), (''retry'', JBool False),
         (''onConnected'', JFun OnConnectedCb)],
      NewFuture 0, OnDisconnect] \<and>
   takeWhile ((\<noteq>) (NewFuture 0)) (calls (ServiceConnection 1 ''ddp://host'' [])) =
     [Connect ''ddp://host''
        [(''connectTimeoutMs'', JNum 15000), (''retry'', JBool False),
         (''onConnected'', JFun OnConnectedCb)]] \<and>
   NewFuture 0 \<notin> set (takeWhile ((\<noteq>) (Connect ''ddp://host'' (extend_options [])))
       (calls (ServiceConnection 1 ''ddp://host'' [])))"
  by (simp add: model_defs)

section \<open>Subscription errors\<close>

text \<open>
  Claim C4 does not hold of the code. A subscription is waiting on its own slot, future 1,
  and the transport calls its \<^verbatim>\<open>onError\<close>. The callback clears \<^verbatim>\<open>self.currentFuture\<close> and
  resolves the slot with the error, and then, since the \<^verbatim>\<open>if\<close> on line 132 neither returns
  nor has an \<^verbatim>\<open>else\<close>, reaches \<^verbatim>\<open>throw e\<close> on line 139 and raises the same error out of
  the callback.
\<close>

theorem onError_own_slot_raises_too:
  "currentFuture (run [EvOnConnected, EvSubscribe [JStr ''feed'']]
       (ServiceConnection 1 ''ddp://host'' [])) = Some 1 \<and>
   subscribeAndWait_issue [JStr ''feed''] (run [EvOnConnected] (ServiceConnection 1 ''ddp://host'' [])) =
     (run [EvOnConnected, EvSubscribe [JStr ''feed'']] (ServiceConnection 1 ''ddp://host'' []), Inr 1) \<and>
   onError 1 \<lparr>message = ''no such subscription'', errorType = None\<rparr>
       (run [EvOnConnected, EvSubscribe [JStr ''feed'']]
         (ServiceConnection 1 ''ddp://host'' [])) =
     (\<lparr>connection = Some 1, connected = Some True, currentFuture = None,
       connectFuture = Some 0,
       futures = [Returned JUndefined,
                  Thrown (Supplied \<lparr>message = ''no such subscription'', errorType = None\<rparr>)],
       calls = [Connect ''ddp://host'' (extend_options []), NewFuture 0, OnDisconnect,
                NewFuture 1, Subscribe [JStr ''feed'', JFun (SubscriptionCbs 1)]]\<rparr>,
      Some (Supplied \<lparr>message = ''no such subscription'', errorType = None\<rparr>))"
  by (simp add: model_defs)

section \<open>Disconnect while a wait is pending\<close>

text \<open>
  Claim C2. In any state the facade can reach, whichever operation the pending wait
  \<open>w\<close> belongs to (connect, call or subscribe), a disconnect event that is not a forced
  reconnect sets \<^verbatim>\<open>connected\<close> to false, clears \<^verbatim>\<open>self.currentFuture\<close> and resolves \<open>w\<close>
  with failure: with the supplied error, or with \<^verbatim>\<open>Error("DDP disconnected")\<close> when none was
  supplied. The handler itself raises nothing. The caller, suspended before the event,
  gets that error from \<^verbatim>\<open>wait()\<close>; no later event changes the outcome, and no wait is
  outstanding afterwards.
\<close>

theorem disconnect_fails_pending_wait:
  assumes "s = run evs (ServiceConnection h url opts)"
    and "currentFuture s = Some w"
    and "\<not> isForcedReconnect error"
  shows "onDisconnect error s =
           (s\<lparr>connected := Some False, currentFuture := None,
              futures := (futures s)[w := Thrown (case error of Some e \<Rightarrow> Supplied e
                                                   | None \<Rightarrow> Error ''DDP disconnected'')]\<rparr>, None) \<and>
         future_wait s w = None \<and>
         future_wait (run later (fst (onDisconnect error s))) w =
           Some (Inl (case error of Some e \<Rightarrow> Supplied e | None \<Rightarrow> Error ''DDP disconnected'')) \<and>
         outstanding (fst (onDisconnect error s)) = []"
proof -
  let ?x = "case error of Some e \<Rightarrow> Supplied e | None \<Rightarrow> Error ''DDP disconnected''"
  let ?s' = "fst (onDisconnect error s)"
  have inv: "slot_inv s"
    unfolding assms(1) by (rule slot_inv_run) (rule slot_inv_init)
  have pend: "w < length (futures s) \<and> futures s ! w = Pending"
    using inv assms(2) by (rule slot_inv_pending)
  have nres: "\<not> isResolved (futures s) w"
    using inv assms(2) by (rule slot_inv_not_resolved)
  have eq: "onDisconnect error s =
      (s\<lparr>connected := Some False, currentFuture := None,
         futures := (futures s)[w := Thrown ?x]\<rparr>, None)"
    using assms(2) nres assms(3) by (rule onDisconnect_pending)
  have before: "future_wait s w = None"
    using pend by (simp add: future_wait_def)
  have inv': "slot_inv ?s'" using inv by (rule slot_inv_onDisconnect)
  have now: "future_wait ?s' w = Some (Inl ?x)"
    using pend by (simp add: eq future_wait_def)
  have after: "future_wait (run later ?s') w = Some (Inl ?x)"
    using inv' now by (rule future_wait_resolved_run)
  have "currentFuture ?s' = None" by (simp add: eq)
  moreover have "outstanding ?s' = (case currentFuture ?s' of None \<Rightarrow> [] | Some f \<Rightarrow> [f])"
    using inv' by (rule outstanding_slot_inv)
  ultimately have none: "outstanding ?s' = []" by simp
  from eq before after none show ?thesis by simp
qed

theorem disconnect_fails_pending_wait_witness:
  "currentFuture (run [EvOnConnected, EvApply [JStr ''ping'', JArr []]]
       (ServiceConnection 1 ''ddp://host'' [])) = Some 1 \<and>
   \<not> isForcedReconnect (Some \<lparr>message = ''socket hang up'', errorType = None\<rparr>) \<and>
   onDisconnect (Some \<lparr>message = ''socket hang up'', errorType = None\<rparr>)
       (run [EvOnConnected, EvApply [JStr ''ping'', JArr []]]
         (ServiceConnection 1 ''ddp://host'' [])) =
     (\<lparr>connection = Some 1, connected = Some False, currentFuture = None,
       connectFuture = Some 0,
       futures = [Returned JUndefined,
                  Thrown (Supplied \<lparr>message = ''socket hang up'', errorType = None\<rparr>)],
       calls = [Connect ''ddp://host'' (extend_options []), NewFuture 0, OnDisconnect,
                NewFuture 1, Apply [JStr ''ping'', JArr [], JFun ResultCb]]\<rparr>, None) \<and>
   future_wait (run [EvResult None (JNum 42)]
       (fst (onDisconnect (Some \<lparr>message = ''socket hang up'', errorType = None\<rparr>)
          (run [EvOnConnected, EvApply [JStr ''ping'', JArr []]]
            (ServiceConnection 1 ''ddp://host'' []))))) 1 =
     Some (Inl (Supplied \<lparr>message = ''socket hang up'', errorType = None\<rparr>))"
proof -
  have st: "run [EvOnConnected, EvApply [JStr ''ping'', JArr []]]
       (ServiceConnection 1 ''ddp://host'' []) =
     \<lparr>connection = Some 1, connected = Some True, currentFuture = Some 1,
      connectFuture = Some 0, futures = [Returned JUndefined, Pending],
      calls = [Connect ''ddp://host'' (extend_options []), NewFuture 0, OnDisconnect,
               NewFuture 1, Apply [JStr ''ping'', JArr [], JFun ResultCb]]\<rparr>"
    by (simp add: model_defs)
  have cur: "currentFuture
     \<lparr>connection = Some 1, connected = Some True, currentFuture = Some 1,
      connectFuture = Some 0, futures = [Returned JUndefined, Pending],
      calls = [Connect ''ddp://host'' (extend_options []), NewFuture 0, OnDisconnect,
               NewFuture 1, Apply [JStr ''ping'', JArr [], JFun ResultCb]]\<rparr> = Some 1"
    by simp
  have e: "\<not> isForcedReconnect (Some \<lparr>message = ''socket hang up'', errorType = None\<rparr>)"
    by (simp add: isForcedReconnect_def)
  from disconnect_fails_pending_wait [OF st [symmetric] cur e,
      where later = "[EvResult None (JNum 42)]"]
  show ?thesis
    by (simp add: model_defs)
qed

section \<open>The blocking call\<close>




section \<open>Which callbacks check the identity of the pending wait\<close>

text \<open>
  Claim C10, as amended. The result callback of \<^verbatim>\<open>apply\<close> raises
  \<^verbatim>\<open>Error("nobody listening for result?")\<close> exactly when \<^verbatim>\<open>self.currentFuture\<close> is null. In a
  reachable state with a wait pending it clears and resolves that wait, whichever
  operation created it, and so does \<^verbatim>\<open>onReady\<close>. The connect success callback compares the
  pending wait with the connect future and raises when they differ; the \<^verbatim>\<open>onError\<close>
  callback of a subscription compares it with its own \<^verbatim>\<open>subFuture\<close> and leaves a wait that
  is not its own untouched.
\<close>

theorem result_callback_resolves_any_pending_wait:
  "(snd (resultCallback err result s) = Some (Error ''nobody listening for result?'')) =
     (currentFuture s = None) \<and>
   (s = run evs (ServiceConnection h url opts) \<and> currentFuture s = Some w \<longrightarrow>
      resultCallback err result s =
        (s\<lparr>currentFuture := None,
           futures := (futures s)[w := (case err of Some e \<Rightarrow> Thrown (Supplied e)
                                        | None \<Rightarrow> Returned result)]\<rparr>, None) \<and>
      onReady s =
        (s\<lparr>currentFuture := None, futures := (futures s)[w := Returned JUndefined]\<rparr>, None)) \<and>
   (currentFuture s = Some w \<and> connectFuture s \<noteq> Some w \<longrightarrow>
      onConnected s =
        (s\<lparr>connected := Some True\<rparr>,
         Some (Error ''waiting for something that isn't connection?''))) \<and>
   (currentFuture s = Some w \<and> w \<noteq> subFuture \<longrightarrow>
      onError subFuture e s = (s, Some (Supplied e)))"
proof -
  have "resultCallback err result s =
        (s\<lparr>currentFuture := None,
           futures := (futures s)[w := (case err of Some e \<Rightarrow> Thrown (Supplied e)
                                        | None \<Rightarrow> Returned result)]\<rparr>, None) \<and>
      onReady s =
        (s\<lparr>currentFuture := None, futures := (futures s)[w := Returned JUndefined]\<rparr>, None)"
    if reach: "s = run evs (ServiceConnection h url opts)" and cur: "currentFuture s = Some w"
  proof -
    have inv: "slot_inv s"
      unfolding reach by (rule slot_inv_run) (rule slot_inv_init)
    have nres: "\<not> isResolved (futures s) w"
      using inv cur by (rule slot_inv_not_resolved)
    show ?thesis
      by (simp add: resultCallback_pending [OF cur nres] onReady_pending [OF cur nres])
  qed
  then have b: "s = run evs (ServiceConnection h url opts) \<and> currentFuture s = Some w \<longrightarrow>
      resultCallback err result s =
        (s\<lparr>currentFuture := None,
           futures := (futures s)[w := (case err of Some e \<Rightarrow> Thrown (Supplied e)
                                        | None \<Rightarrow> Returned result)]\<rparr>, None) \<and>
      onReady s =
        (s\<lparr>currentFuture := None, futures := (futures s)[w := Returned JUndefined]\<rparr>, None)"
    by blast
  have a: "(snd (resultCallback err result s) = Some (Error ''nobody listening for result?'')) =
     (currentFuture s = None)"
    by (rule resultCallback_nobody_iff)
  have c: "currentFuture s = Some w \<and> connectFuture s \<noteq> Some w \<longrightarrow>
      onConnected s =
        (s\<lparr>connected := Some True\<rparr>,
         Some (Error ''waiting for something that isn't connection?''))"
    by (simp add: onConnected_other)
  have d: "currentFuture s = Some w \<and> w \<noteq> subFuture \<longrightarrow>
      onError subFuture e s = (s, Some (Supplied e))"
    by (simp add: onError_other)
  from a b c d show ?thesis by blast
qed

theorem result_callback_resolves_any_pending_wait_witness:
  "currentFuture (run [EvOnConnected, EvSubscribe [JStr ''feed'']]
       (ServiceConnection 1 ''ddp://host'' [])) = Some 1 \<and>
   connectFuture (run [EvOnConnected, EvSubscribe [JStr ''feed'']]
       (ServiceConnection 1 ''ddp://host'' [])) \<noteq> Some 1 \<and>
   resultCallback None (JNum 42)
       (run [EvOnConnected, EvSubscribe [JStr ''feed'']]
         (ServiceConnection 1 ''ddp://host'' [])) =
     (\<lparr>connection = Some 1, connected = Some True, currentFuture = None,
       connectFuture = Some 0, futures = [Returned JUndefined, Returned (JNum 42)],
       calls = [Connect ''ddp://host'' (extend_options []), NewFuture 0, OnDisconnect,
                NewFuture 1, Subscribe [JStr ''feed'', JFun (SubscriptionCbs 1)]]\<rparr>, None) \<and>
   snd (onConnected (run [EvOnConnected, EvSubscribe [JStr ''feed'']]
       (ServiceConnection 1 ''ddp://host'' []))) =
     Some (Error ''waiting for something that isn't connection?'') \<and>
   snd (resultCallback None (JNum 42) (run [EvOnConnected] (ServiceConnection 1 ''ddp://host'' []))) =
     Some (Error ''nobody listening for result?'')"
proof -
  have st: "run [EvOnConnected, EvSubscribe [JStr ''feed'']]
       (ServiceConnection 1 ''ddp://host'' []) =
     \<lparr>connection = Some 1, connected = Some True, currentFuture = Some 1,
      connectFuture = Some 0, futures = [Returned JUndefined, Pending],
      calls = [Connect ''ddp://host'' (extend_options []), NewFuture 0, OnDisconnect,
               NewFuture 1, Subscribe [JStr ''feed'', JFun (SubscriptionCbs 1)]]\<rparr>"
    by (simp add: model_defs)
  have st0: "run [EvOnConnected] (ServiceConnection 1 ''ddp://host'' []) =
     \<lparr>connection = Some 1, connected = Some True, currentFuture = None,
      connectFuture = Some 0, futures = [Returned JUndefined],
      calls = [Connect ''ddp://host'' (extend_options []), NewFuture 0, OnDisconnect]\<rparr>"
    by (simp add: model_defs)
  from result_callback_resolves_any_pending_wait
      [where s = "run [EvOnConnected, EvSubscribe [JStr ''feed'']]
                    (ServiceConnection 1 ''ddp://host'' [])"
        and evs = "[EvOnConnected, EvSubscribe [JStr ''feed'']]" and h = 1
        and url = "''ddp://host''" and opts = "[]" and w = 1 and err = None
        and result = "JNum 42" and subFuture = 0
        and e = "\<lparr>message = ''late'', errorType = None\<rparr>"]
    result_callback_resolves_any_pending_wait
      [where s = "run [EvOnConnected] (ServiceConnection 1 ''ddp://host'' [])"
        and evs = "[EvOnConnected]" and h = 1
        and url = "''ddp://host''" and opts = "[]" and w = 1 and err = None
        and result = "JNum 42" and subFuture = 0
        and e = "\<lparr>message = ''late'', errorType = None\<rparr>"]
  show ?thesis
    using st st0 by (simp del: run.simps)
qed

text \<open>
  Claim C10, as stated, fails in its last part: the connect success callback is not the
  only one that checks the identity of the pending wait. Line 132 tests
  \<^verbatim>\<open>self.currentFuture === subFuture\<close>. A first subscription (future 1) has become ready and
  a second one (future 2) is waiting: \<^verbatim>\<open>onError\<close> of the first leaves the pending wait
  alone, \<^verbatim>\<open>onError\<close> of the second clears and resolves it.
\<close>

theorem onError_checks_slot_identity:
  "currentFuture (run [EvOnConnected, EvSubscribe [JStr ''a''], EvOnReady, EvSubscribe [JStr ''b'']]
       (ServiceConnection 1 ''ddp://host'' [])) = Some 2 \<and>
   onError 1 \<lparr>message = ''late'', errorType = None\<rparr>
       (run [EvOnConnected, EvSubscribe [JStr ''a''], EvOnReady, EvSubscribe [JStr ''b'']]
         (ServiceConnection 1 ''ddp://host'' [])) =
     (run [EvOnConnected, EvSubscribe [JStr ''a''], EvOnReady, EvSubscribe [JStr ''b'']]
         (ServiceConnection 1 ''ddp://host'' []),
      Some (Supplied \<lparr>message = ''late'', errorType = None\<rparr>)) \<and>
   currentFuture (fst (onError 2 \<lparr>message = ''late'', errorType = None\<rparr>
       (run [EvOnConnected, EvSubscribe [JStr ''a''], EvOnReady, EvSubscribe [JStr ''b'']]
         (ServiceConnection 1 ''ddp://host'' [])))) = None \<and>
   futures (fst (onError 2 \<lparr>message = ''late'', errorType = None\<rparr>
       (run [EvOnConnected, EvSubscribe [JStr ''a''], EvOnReady, EvSubscribe [JStr ''b'']]
         (ServiceConnection 1 ''ddp://host'' [])))) =
     [Returned JUndefined, Returned JUndefined,
      Thrown (Supplied \<lparr>message = ''late'', errorType = None\<rparr>)]"
  by (simp add: model_defs)

end
